theory Spec2Isabelle
  imports Main
begin

text \<open>
  A model of the tool-call loop of \<open>@makimai/core\<close>: \<open>runTool\<close> of
  \<open>src/lib/tools/index.ts\<close> and \<open>ask\<close>, \<open>resolve_tools\<close> and \<open>createMakimaInstance\<close> of
  \<open>src/lib/inference-handler.ts\<close>, with the default messages controller. What the code
  reaches outside itself is a parameter: \<open>JSON.parse\<close>, the chat-completion endpoint and
  the tool executables. \<open>JSON.stringify\<close>, property access, object spread and
  truthiness are defined on a datatype of JavaScript values.
\<close>

section \<open>JavaScript values\<close>

text \<open>
  The orchestrator is untyped at run time: what \<open>runTool\<close> returns for the reserved tool
  name is whatever \<open>JSON.parse\<close> produced, and it is put into the message list as it is.
  Messages are therefore modelled as JavaScript values, not as a record.

  \<^item> \<open>JNum\<close> carries the text that \<open>Number.prototype.toString\<close> gives for the number
    (\<open>5\<close>, \<open>-0.5\<close>, \<open>1e+21\<close>, \<open>NaN\<close>, \<open>Infinity\<close>): the program does no arithmetic, it
    only tests, prints and serialises numbers.
  \<^item> \<open>JObj\<close> is a plain object, its enumerable own properties in insertion order
    (keys are distinct in every object the model builds).
  \<^item> \<open>JError name message\<close> is an instance of \<open>Error\<close>: \<open>name\<close> and \<open>message\<close> are
    not enumerable, so it has no enumerable own property.
  \<^item> \<open>JBigInt\<close> is the primitive that \<open>JSON.stringify\<close> refuses; an object with a
    circular reference is refused in the same way but has no finite representation here.
\<close>

datatype jsval =
    JUndefined
  | JNull
  | JBool bool
  | JNum string
  | JStr string
  | JArr "jsval list"
  | JObj "(string \<times> jsval) list"
  | JError string string
  | JBigInt int

text \<open>A completed evaluation: a value, or a thrown value (for a promise: fulfilled or rejected).\<close>

datatype 'a result = Value 'a | Thrown jsval

text \<open>Truthiness, as \<open>m.content ? \<dots> : \<dots>\<close> tests it.\<close>

fun truthy :: "jsval \<Rightarrow> bool" where
  "truthy JUndefined = False"
| "truthy JNull = False"
| "truthy (JBool b) = b"
| "truthy (JNum n) = (n \<noteq> ''0'' \<and> n \<noteq> ''NaN'')"
| "truthy (JStr s) = (s \<noteq> [])"
| "truthy (JArr xs) = True"
| "truthy (JObj kvs) = True"
| "truthy (JError n m) = True"
| "truthy (JBigInt n) = (n \<noteq> 0)"

subsection \<open>Decimal rendering of indices, lengths and BigInt values\<close>

definition digit :: "nat \<Rightarrow> char" where
  "digit d = char_of (48 + d)"

fun show_nat :: "nat \<Rightarrow> string" where
  "show_nat n = (if n < 10 then [digit n] else show_nat (n div 10) @ [digit (n mod 10)])"

declare show_nat.simps [simp del]

text \<open>A BigInt prints with all its digits, whatever its size.\<close>

definition show_int :: "int \<Rightarrow> string" where
  "show_int i = (if i < 0 then CHR ''-'' # show_nat (nat (- i)) else show_nat (nat i))"

fun join :: "string \<Rightarrow> string list \<Rightarrow> string" where
  "join sep [] = []"
| "join sep [x] = x"
| "join sep (x # y # ys) = x @ sep @ join sep (y # ys)"

subsection \<open>Property access and object spread\<close>

definition type_error :: "string \<Rightarrow> jsval" where
  "type_error msg = JError ''TypeError'' msg"

text \<open>
  \<open>v.k\<close> for a data property \<open>k\<close>: reading a property of \<open>undefined\<close> or \<open>null\<close> throws a
  TypeError, a missing property reads as \<open>undefined\<close>. The program reads \<open>context\<close> and
  \<open>content\<close> only; inherited methods and the index properties of strings and arrays
  are not modelled.
\<close>

fun get_prop :: "jsval \<Rightarrow> string \<Rightarrow> jsval result" where
  "get_prop JUndefined k =
     Thrown (type_error (''Cannot read properties of undefined (reading '' @
                         [CHR 0x27] @ k @ [CHR 0x27] @ '')''))"
| "get_prop JNull k =
     Thrown (type_error (''Cannot read properties of null (reading '' @
                         [CHR 0x27] @ k @ [CHR 0x27] @ '')''))"
| "get_prop (JObj kvs) k = Value (case map_of kvs k of None \<Rightarrow> JUndefined | Some v \<Rightarrow> v)"
| "get_prop (JStr s) k = Value (if k = ''length'' then JNum (show_nat (length s)) else JUndefined)"
| "get_prop (JArr xs) k =
     Value (if k = ''length'' then JNum (show_nat (length xs)) else JUndefined)"
| "get_prop (JError n m) k =
     Value (if k = ''name'' then JStr n else if k = ''message'' then JStr m else JUndefined)"
| "get_prop (JBool b) k = Value JUndefined"
| "get_prop (JNum n) k = Value JUndefined"
| "get_prop (JBigInt n) k = Value JUndefined"

text \<open>The enumerable own properties that \<open>{...m}\<close> copies.\<close>

fun own_props :: "jsval \<Rightarrow> (string \<times> jsval) list" where
  "own_props (JObj kvs) = kvs"
| "own_props (JArr xs) = zip (map show_nat [0..<length xs]) xs"
| "own_props (JStr s) = zip (map show_nat [0..<length s]) (map (\<lambda>c. JStr [c]) s)"
| "own_props JUndefined = []"
| "own_props JNull = []"
| "own_props (JBool b) = []"
| "own_props (JNum n) = []"
| "own_props (JError n m) = []"
| "own_props (JBigInt n) = []"

text \<open>Defining property \<open>k\<close> in an object literal: an existing key keeps its place.\<close>

fun set_prop :: "(string \<times> jsval) list \<Rightarrow> string \<Rightarrow> jsval \<Rightarrow> (string \<times> jsval) list" where
  "set_prop [] k v = [(k, v)]"
| "set_prop ((k', v') # kvs) k v =
     (if k' = k then (k, v) # kvs else (k', v') # set_prop kvs k v)"

subsection \<open>JSON.stringify and string conversion\<close>

definition hex_digit :: "nat \<Rightarrow> char" where
  "hex_digit d = (if d < 10 then char_of (48 + d) else char_of (87 + d))"

definition escape_char :: "char \<Rightarrow> string" where
  "escape_char c =
     (if c = CHR ''\"'' then [CHR 0x5C, CHR ''\"'']
      else if c = CHR 0x5C then [CHR 0x5C, CHR 0x5C]
      else if c = CHR 0x08 then [CHR 0x5C, CHR ''b'']
      else if c = CHR 0x09 then [CHR 0x5C, CHR ''t'']
      else if c = CHR 0x0A then [CHR 0x5C, CHR ''n'']
      else if c = CHR 0x0C then [CHR 0x5C, CHR ''f'']
      else if c = CHR 0x0D then [CHR 0x5C, CHR ''r'']
      else if (of_char c :: nat) < 32
        then [CHR 0x5C, CHR ''u'', CHR ''0'', CHR ''0'',
              hex_digit (of_char c div 16), hex_digit (of_char c mod 16)]
      else [c])"

definition quote :: "string \<Rightarrow> string" where
  "quote s = CHR ''\"'' # concat (map escape_char s) @ [CHR ''\"'']"

text \<open>
  What serialising one value gives: text, nothing (\<open>undefined\<close> has no JSON form: an array
  writes \<open>null\<close> for it, an object leaves the property out), or a TypeError.
\<close>

datatype ser = SText string | SOmit | SFail

fun serialize :: "jsval \<Rightarrow> ser"
  and serialize_elems :: "jsval list \<Rightarrow> string list option"
  and serialize_props :: "(string \<times> jsval) list \<Rightarrow> string list option"
where
  "serialize JUndefined = SOmit"
| "serialize JNull = SText ''null''"
| "serialize (JBool b) = SText (if b then ''true'' else ''false'')"
| "serialize (JNum n) =
     SText (if n = ''NaN'' \<or> n = ''Infinity'' \<or> n = ''-Infinity'' then ''null'' else n)"
| "serialize (JStr s) = SText (quote s)"
| "serialize (JArr xs) =
     (case serialize_elems xs of
        None \<Rightarrow> SFail
      | Some ts \<Rightarrow> SText (''['' @ join '','' ts @ '']''))"
| "serialize (JObj kvs) =
     (case serialize_props kvs of
        None \<Rightarrow> SFail
      | Some ts \<Rightarrow> SText (''{'' @ join '','' ts @ ''}''))"
| "serialize (JError n m) = SText ''{}''"
| "serialize (JBigInt n) = SFail"
| "serialize_elems [] = Some []"
| "serialize_elems (x # xs) =
     (case serialize x of
        SFail \<Rightarrow> None
      | SOmit \<Rightarrow> map_option ((#) ''null'') (serialize_elems xs)
      | SText t \<Rightarrow> map_option ((#) t) (serialize_elems xs))"
| "serialize_props [] = Some []"
| "serialize_props (kv # kvs) =
     (case serialize (snd kv) of
        SFail \<Rightarrow> None
      | SOmit \<Rightarrow> serialize_props kvs
      | SText t \<Rightarrow> map_option ((#) (quote (fst kv) @ '':'' @ t)) (serialize_props kvs))"

text \<open>\<open>JSON.stringify(v)\<close>: a string, \<open>undefined\<close>, or a thrown TypeError.\<close>

definition JSON_stringify :: "jsval \<Rightarrow> jsval result" where
  "JSON_stringify v =
     (case serialize v of
        SText t \<Rightarrow> Value (JStr t)
      | SOmit \<Rightarrow> Value JUndefined
      | SFail \<Rightarrow> Thrown (type_error ''Do not know how to serialize a BigInt''))"

text \<open>
  The conversion to a string that a template literal applies to \<open>${v}\<close> and a property
  access applies to its key; \<open>None\<close> where it throws. An array joins its elements with
  commas, \<open>null\<close> and \<open>undefined\<close> elements giving nothing. A plain object gives
  \<open>[object Object]\<close> through the inherited \<open>toString\<close>; an own property \<open>toString\<close>
  hides that method, and as no value of the datatype is callable the conversion then
  finds no primitive and throws.
\<close>

fun string_of :: "jsval \<Rightarrow> string option"
  and strings_of :: "jsval list \<Rightarrow> string list option"
where
  "string_of JUndefined = Some ''undefined''"
| "string_of JNull = Some ''null''"
| "string_of (JBool b) = Some (if b then ''true'' else ''false'')"
| "string_of (JNum n) = Some n"
| "string_of (JStr s) = Some s"
| "string_of (JArr xs) = map_option (join '','') (strings_of xs)"
| "string_of (JObj kvs) =
     (if map_of kvs ''toString'' = None then Some ''[object Object]'' else None)"
| "string_of (JError n m) =
     Some (if m = [] then n else if n = [] then m else n @ '': '' @ m)"
| "string_of (JBigInt n) = Some (show_int n)"
| "strings_of [] = Some []"
| "strings_of (x # xs) =
     (if x = JUndefined \<or> x = JNull then map_option ((#) []) (strings_of xs)
      else (case string_of x of
              None \<Rightarrow> None
            | Some t \<Rightarrow> map_option ((#) t) (strings_of xs)))"

definition to_string :: "jsval \<Rightarrow> string result" where
  "to_string v =
     (case string_of v of
        None \<Rightarrow> Thrown (type_error ''Cannot convert object to primitive value'')
      | Some t \<Rightarrow> Value t)"

section \<open>The tool invoker (\<open>src/lib/tools/index.ts\<close>)\<close>

text \<open>
  A tool-call request as the model emits it:
  \<open>{id, type: "function", function: {name, arguments}}\<close>.
\<close>

record toolcall =
  tc_id :: string
  tc_name :: string
  tc_arguments :: string

text \<open>
  A tool executable, \<open>(args, props) => Promise\<close>: from the parsed arguments and the
  shared context to the settled outcome of the promise it returns, \<open>None\<close> when that
  promise never settles. A synchronous throw and a rejection are the same under \<open>await\<close>.
\<close>

type_synonym executable = "jsval \<Rightarrow> jsval \<Rightarrow> jsval result option"

text \<open>
  The registry: the own properties of the object that \<open>createMakimaInstance\<close> builds,
  a plain object whose prototype is \<open>Object.prototype\<close>.
\<close>

type_synonym tools_map = "string \<rightharpoonup> executable"

text \<open>
  The methods a plain object inherits, as \<open>tools_map[name](validated_args, config)\<close>
  runs them, with the registry as \<open>this\<close>. Only what \<open>JSON.stringify\<close> makes of the
  result matters to \<open>runTool\<close>:
  \<^item> \<open>toString\<close> gives \<open>[object Object]\<close>; \<open>toLocaleString\<close> calls \<open>this.toString()\<close>
    without arguments, which is a tool when one is declared under that name;
  \<^item> \<open>valueOf\<close> returns the registry, whose properties are all functions and are left
    out by \<open>JSON.stringify\<close>: the empty object stands for it (a tool declared as
    \<open>toJSON\<close> is called by \<open>JSON.stringify\<close> at this point; being asynchronous it
    gives a promise, which serialises as the empty object too);
  \<^item> \<open>constructor\<close> is \<open>Object\<close>: it gives a new object for \<open>null\<close> and \<open>undefined\<close>, an
    object back as it is, and wraps a primitive, which serialises as the primitive does;
  \<^item> \<open>hasOwnProperty\<close> and \<open>propertyIsEnumerable\<close> turn the first argument into a
    property key and look it up among the own properties; \<open>isPrototypeOf\<close> is false of
    every value that did not come from the registry;
  \<^item> \<open>__defineGetter__\<close> and \<open>__defineSetter__\<close> throw, their second argument not being
    a function; \<open>__lookupGetter__\<close> and \<open>__lookupSetter__\<close> turn the first argument into
    a property key and give \<open>undefined\<close> or an accessor function, which both serialise
    as \<open>undefined\<close>.
  \<open>__proto__\<close> reads as the prototype object, which cannot be called any more than
  \<open>undefined\<close> can.
\<close>

definition Object_prototype :: "tools_map \<Rightarrow> string \<rightharpoonup> executable" where
  "Object_prototype this name =
     (if name = ''toString'' then Some (\<lambda>args props. Some (Value (JStr ''[object Object]'')))
      else if name = ''toLocaleString''
        then Some (\<lambda>args props. case this ''toString'' of
                                   None \<Rightarrow> Some (Value (JStr ''[object Object]''))
                                 | Some f \<Rightarrow> f JUndefined JUndefined)
      else if name = ''valueOf'' then Some (\<lambda>args props. Some (Value (JObj [])))
      else if name = ''constructor''
        then Some (\<lambda>args props.
               Some (Value (if args = JNull \<or> args = JUndefined then JObj [] else args)))
      else if name = ''hasOwnProperty'' \<or> name = ''propertyIsEnumerable''
        then Some (\<lambda>args props. case to_string args of
                                   Thrown e \<Rightarrow> Some (Thrown e)
                                 | Value key \<Rightarrow> Some (Value (JBool (this key \<noteq> None))))
      else if name = ''isPrototypeOf'' then Some (\<lambda>args props. Some (Value (JBool False)))
      else if name = ''__defineGetter__''
        then Some (\<lambda>args props.
               Some (Thrown (type_error ''Object.prototype.__defineGetter__: Expecting function'')))
      else if name = ''__defineSetter__''
        then Some (\<lambda>args props.
               Some (Thrown (type_error ''Object.prototype.__defineSetter__: Expecting function'')))
      else if name = ''__lookupGetter__'' \<or> name = ''__lookupSetter__''
        then Some (\<lambda>args props. case to_string args of
                                   Thrown e \<Rightarrow> Some (Thrown e)
                                 | Value key \<Rightarrow> Some (Value JUndefined))
      else None)"

text \<open>
  \<open>tools_map[name]\<close> as far as it can be called: an own property, else an inherited
  method, else \<open>None\<close> (the read gives \<open>undefined\<close>, or the prototype for \<open>__proto__\<close>).
\<close>

definition lookup :: "tools_map \<Rightarrow> string \<rightharpoonup> executable" where
  "lookup tools_map name =
     (case tools_map name of
        Some f \<Rightarrow> Some f
      | None \<Rightarrow> Object_prototype tools_map name)"

definition invalid_json_message :: "toolcall \<Rightarrow> jsval" where
  "invalid_json_message tool =
     JObj [(''role'', JStr ''tool''),
           (''tool_call_id'', JStr (tc_id tool)),
           (''content'', JStr ''Invalid JSON passed as arguments'')]"

definition result_message :: "toolcall \<Rightarrow> jsval \<Rightarrow> jsval" where
  "result_message tool tool_res =
     JObj [(''tool_call_id'', JStr (tc_id tool)),
           (''role'', JStr ''tool''),
           (''content'', tool_res)]"

definition error_message :: "toolcall \<Rightarrow> jsval \<Rightarrow> jsval" where
  "error_message tool serialized =
     JObj [(''role'', JStr ''tool''),
           (''tool_call_id'', JStr (tc_id tool)),
           (''content'', serialized)]"

text \<open>
  The body of the second \<open>try\<close>: look the executable up and call it (calling \<open>undefined\<close>
  throws a TypeError), await it, serialise what it returned, build the message.
\<close>

definition run_tool_try ::
  "jsval \<Rightarrow> tools_map \<Rightarrow> toolcall \<Rightarrow> jsval \<Rightarrow> jsval result option" where
  "run_tool_try config tools_map tool validated_args =
     (case lookup tools_map (tc_name tool) of
        None \<Rightarrow> Some (Thrown (type_error ''tools_map[tool.function.name] is not a function''))
      | Some f \<Rightarrow>
          (case f validated_args config of
             None \<Rightarrow> None
           | Some (Thrown e) \<Rightarrow> Some (Thrown e)
           | Some (Value tool_res) \<Rightarrow>
               (case JSON_stringify tool_res of
                  Thrown e \<Rightarrow> Some (Thrown e)
                | Value s \<Rightarrow> Some (Value (result_message tool s)))))"

text \<open>
  \<open>runTool\<close>. The first argument is \<open>JSON.parse\<close> (\<open>None\<close> where it throws a SyntaxError),
  the second the shared context \<open>config\<close> that every executable is given. The result is
  the settled promise, \<open>None\<close> when it never settles.
\<close>

definition runTool ::
  "(string \<Rightarrow> jsval option) \<Rightarrow> jsval \<Rightarrow> tools_map \<Rightarrow> toolcall \<Rightarrow> jsval result option"
  where
  "runTool JSON_parse config tools_map tool =
     (case JSON_parse (tc_arguments tool) of
        None \<Rightarrow> Some (Value (invalid_json_message tool))
      | Some validated_args \<Rightarrow>
          if tc_name tool = ''switch_tool_set''
          then Some (get_prop validated_args ''context'')
          else
            (case run_tool_try config tools_map tool validated_args of
               None \<Rightarrow> None
             | Some (Value res) \<Rightarrow> Some (Value res)
             | Some (Thrown error) \<Rightarrow>
                 (case JSON_stringify error of
                    Thrown e \<Rightarrow> Some (Thrown e)
                  | Value s \<Rightarrow> Some (Value (error_message tool s)))))"

section \<open>The orchestrator (\<open>src/lib/inference-handler.ts\<close>)\<close>

subsection \<open>The model boundary and the message store\<close>

text \<open>The part of a tool declaration that is sent to the model (\<open>OpenAI.ChatCompletionTool\<close>).\<close>

record tool_schema =
  tool_type :: string
  fn_name :: string
  fn_description :: string
  fn_parameters :: jsval

record usertool =
  ut_tool :: tool_schema
  ut_function :: executable

text \<open>What \<open>openai.chat.completions.create\<close> is given, the fixed model name left out.\<close>

record request =
  req_tools :: "tool_schema list option"
  req_messages :: "jsval list"

text \<open>
  \<open>res.choices[0].message\<close>: an assistant message whose content is a string or \<open>null\<close>
  and whose \<open>tool_calls\<close> field may be missing (\<open>None\<close>) or an array, possibly empty.
\<close>

record reply =
  reply_content :: "string option"
  reply_tool_calls :: "toolcall list option"

definition toolcall_value :: "toolcall \<Rightarrow> jsval" where
  "toolcall_value tool =
     JObj [(''id'', JStr (tc_id tool)),
           (''type'', JStr ''function''),
           (''function'', JObj [(''name'', JStr (tc_name tool)),
                                (''arguments'', JStr (tc_arguments tool))])]"

definition reply_message :: "reply \<Rightarrow> jsval" where
  "reply_message r =
     JObj ([(''role'', JStr ''assistant''),
            (''content'', case reply_content r of None \<Rightarrow> JNull | Some c \<Rightarrow> JStr c)]
           @ (case reply_tool_calls r of
                None \<Rightarrow> []
              | Some tcs \<Rightarrow> [(''tool_calls'', JArr (map toolcall_value tcs))]))"

definition user_message :: "string \<Rightarrow> jsval" where
  "user_message question = JObj [(''role'', JStr ''user''), (''content'', JStr question)]"

text \<open>
  What the closure of \<open>createMakimaInstance\<close> holds: \<open>JSON.parse\<close>, the model boundary,
  the shared context \<open>config\<close> and the system prompts. The model boundary is a function
  of the number of calls made before and of the request; it answers with a reply or
  throws.
\<close>

record closure =
  JSON_parse :: "string \<Rightarrow> jsval option"
  openai_create :: "nat \<Rightarrow> request \<Rightarrow> reply result"
  config :: jsval
  systemPrompts :: "jsval list"

text \<open>
  The state a turn works on: the array held by the default messages controller
  (\<open>getDefaultMessagesController\<close>) and the requests made to the model so far, in order.
  \<open>add\<close> appends an array with \<open>concat\<close> and a single message with \<open>push\<close>, and returns
  the array; \<open>ask\<close> only reads what \<open>add\<close> returns before the next \<open>add\<close>, so lists
  stand for the arrays.
\<close>

record world =
  store :: "jsval list"
  requests :: "request list"

definition add_array :: "jsval list \<Rightarrow> world \<Rightarrow> jsval list \<times> world" where
  "add_array message w = (store w @ message, w\<lparr>store := store w @ message\<rparr>)"

definition add_single :: "jsval \<Rightarrow> world \<Rightarrow> jsval list \<times> world" where
  "add_single message w = (store w @ [message], w\<lparr>store := store w @ [message]\<rparr>)"

definition wire_tools :: "tool_schema list \<Rightarrow> tool_schema list" where
  "wire_tools tools =
     map (\<lambda>tool. \<lparr>tool_type = tool_type tool, fn_name = fn_name tool,
                  fn_description = fn_description tool,
                  fn_parameters = fn_parameters tool\<rparr>) tools"

subsection \<open>\<open>resolve_tools\<close>\<close>

text \<open>
  \<open>Promise.allSettled\<close>: settles once every promise has, with the outcomes in the order
  of the input. The invocations run concurrently; an executable is modelled by its
  outcome alone, so their interleaving does not show.
\<close>

fun allSettled :: "'a option list \<Rightarrow> 'a list option" where
  "allSettled [] = Some []"
| "allSettled (None # ps) = None"
| "allSettled (Some r # ps) = map_option ((#) r) (allSettled ps)"

definition invoke_all ::
  "closure \<Rightarrow> tools_map option \<Rightarrow> toolcall list \<Rightarrow> jsval result list option" where
  "invoke_all I tools_map tool_calls =
     allSettled (map (\<lambda>tool. case tools_map of
                                Some tm \<Rightarrow> runTool (JSON_parse I) (config I) tm tool
                              | None \<Rightarrow> Some (Value JUndefined)) tool_calls)"

definition new_messages :: "jsval result list \<Rightarrow> jsval list" where
  "new_messages tools_results =
     filter (\<lambda>message. message \<noteq> JUndefined)
       (map (\<lambda>r. case r of Value v \<Rightarrow> v | Thrown e \<Rightarrow> JUndefined) tools_results)"

text \<open>\<open>m.content ? m : {...m, content: null}\<close>; reading \<open>content\<close> of \<open>null\<close> throws.\<close>

definition normalize_content :: "jsval \<Rightarrow> jsval result" where
  "normalize_content m =
     (case get_prop m ''content'' of
        Thrown e \<Rightarrow> Thrown e
      | Value c \<Rightarrow>
          Value (if truthy c then m else JObj (set_prop (own_props m) ''content'' JNull)))"

fun normalize_all :: "jsval list \<Rightarrow> jsval list result" where
  "normalize_all [] = Value []"
| "normalize_all (m # ms) =
     (case normalize_content m of
        Thrown e \<Rightarrow> Thrown e
      | Value m' \<Rightarrow>
          (case normalize_all ms of
             Thrown e \<Rightarrow> Thrown e
           | Value ms' \<Rightarrow> Value (m' # ms')))"

text \<open>
  The first half of \<open>resolve_tools\<close>, up to the model call: run every requested tool,
  keep what the fulfilled promises gave unless it is \<open>undefined\<close>, append that to the
  history and normalise every message. \<open>None\<close> when some invocation never settles.
\<close>

definition new_message_history ::
  "closure \<Rightarrow> tools_map option \<Rightarrow> toolcall list \<Rightarrow> jsval list \<Rightarrow> jsval list result option"
  where
  "new_message_history I tools_map tool_calls message_history =
     (case invoke_all I tools_map tool_calls of
        None \<Rightarrow> None
      | Some tools_results \<Rightarrow>
          Some (normalize_all (message_history @ new_messages tools_results)))"

text \<open>
  \<open>resolve_tools\<close> recurses for as long as the model's reply has a truthy \<open>tool_calls\<close>
  field, with no bound, so it is a partial function: \<open>None\<close> is a turn that never returns.
  It returns the final message list (or what it threw) and the extended list of requests.
\<close>

partial_function (option) resolve_tools ::
  "closure \<Rightarrow> tool_schema list option \<Rightarrow> tools_map option \<Rightarrow> toolcall list \<Rightarrow>
   jsval list \<Rightarrow> request list \<Rightarrow> (jsval list result \<times> request list) option" where
  "resolve_tools I tools tools_map tool_calls message_history reqs =
     (case new_message_history I tools_map tool_calls message_history of
        None \<Rightarrow> None
      | Some (Thrown e) \<Rightarrow> Some (Thrown e, reqs)
      | Some (Value history) \<Rightarrow>
          (case openai_create I (length reqs)
                  \<lparr>req_tools = map_option wire_tools tools, req_messages = history\<rparr> of
             Thrown e \<Rightarrow>
               Some (Thrown e,
                     reqs @ [\<lparr>req_tools = map_option wire_tools tools,
                              req_messages = history\<rparr>])
           | Value res \<Rightarrow>
               (case reply_tool_calls res of
                  Some tcs \<Rightarrow>
                    resolve_tools I tools tools_map tcs (history @ [reply_message res])
                      (reqs @ [\<lparr>req_tools = map_option wire_tools tools,
                                req_messages = history\<rparr>])
                | None \<Rightarrow>
                    Some (Value (history @ [reply_message res]),
                          reqs @ [\<lparr>req_tools = map_option wire_tools tools,
                                   req_messages = history\<rparr>]))))"

declare resolve_tools.simps [code]

subsection \<open>\<open>ask\<close> and \<open>createMakimaInstance\<close>\<close>

text \<open>The message of the \<open>catch\<close> branch, from the text that \<open>${e}\<close> gave.\<close>

definition tools_error_message :: "string \<Rightarrow> jsval" where
  "tools_error_message e =
     JObj [(''role'', JStr ''assistant''),
           (''content'', JStr (''Error while running tools:'' @ [CHR 0x0A] @ e))]"

text \<open>
  \<open>ask\<close>: the outcome of the promise and the state afterwards. The promise rejects with
  the error of the first model call, which nothing catches, or with the error of \<open>${e}\<close>
  in the \<open>catch\<close> branch; otherwise it fulfils with the history.
\<close>

definition ask ::
  "closure \<Rightarrow> string \<Rightarrow> tool_schema list option \<Rightarrow> tools_map option \<Rightarrow> world \<Rightarrow>
   (jsval list result \<times> world) option" where
  "ask I question tools tools_map w =
     (case add_array (systemPrompts I @ [user_message question]) w of
        (messages, w1) \<Rightarrow>
          (case openai_create I (length (requests w1))
                  \<lparr>req_tools = map_option wire_tools tools, req_messages = messages\<rparr> of
             Thrown e \<Rightarrow>
               Some (Thrown e,
                     w1\<lparr>requests := requests w1 @
                          [\<lparr>req_tools = map_option wire_tools tools,
                            req_messages = messages\<rparr>]\<rparr>)
           | Value res \<Rightarrow>
               (case add_single (reply_message res)
                       (w1\<lparr>requests := requests w1 @
                            [\<lparr>req_tools = map_option wire_tools tools,
                              req_messages = messages\<rparr>]\<rparr>) of
                  (messages', w2) \<Rightarrow>
                    (case reply_tool_calls res of
                       None \<Rightarrow> Some (Value messages', w2)
                     | Some tcs \<Rightarrow>
                         (case resolve_tools I tools tools_map tcs messages' (requests w2) of
                            None \<Rightarrow> None
                          | Some (Value result, reqs) \<Rightarrow>
                              (case add_array result (w2\<lparr>requests := reqs\<rparr>) of
                                 (h, w3) \<Rightarrow> Some (Value h, w3))
                          | Some (Thrown e, reqs) \<Rightarrow>
                              (case to_string e of
                                 Thrown e' \<Rightarrow> Some (Thrown e', w2\<lparr>requests := reqs\<rparr>)
                               | Value t \<Rightarrow>
                                   (case add_single (tools_error_message t)
                                           (w2\<lparr>requests := reqs\<rparr>) of
                                      (h, w3) \<Rightarrow> Some (Value h, w3))))))))"

text \<open>
  \<open>tools?.reduce((acc, t) => { acc[t.tool.function.name] = t.function; return acc }, {})\<close>:
  a later tool of the same name replaces an earlier one. A tool declared under the name
  \<open>__proto__\<close> is not stored as a property: the assignment makes it the prototype of the
  registry. \<open>tools_map["__proto__"]\<close> still reads as that tool, as here, but the names
  the registry inherits are then no longer those of \<open>Object.prototype\<close>, which the model
  does not follow.
\<close>

definition generated_tools_map :: "usertool list option \<Rightarrow> tools_map option" where
  "generated_tools_map tools =
     map_option
       (foldl (\<lambda>acc t. acc(fn_name (ut_tool t) \<mapsto> ut_function t)) Map.empty) tools"

definition generated_tools :: "usertool list option \<Rightarrow> tool_schema list option" where
  "generated_tools tools = map_option (map ut_tool) tools"

definition default_system_prompts :: "jsval list" where
  "default_system_prompts =
     [JObj [(''role'', JStr ''system''),
            (''content'', JStr (''You are makima'' @ [CHR 0x0A] @
               ''        You are a chatbot that can do anything.''))]]"

text \<open>
  \<open>createMakimaInstance\<close> for a configuration that passes validation (an invalid one ends
  the process) and the default messages controller. The first two arguments are the
  boundaries the closure reaches: \<open>JSON.parse\<close> and the client made from the configuration;
  the third is the argument \<open>config\<close> itself, which the executables are given.
  The result is the entry point; the state it is run on starts as \<open>fresh\<close>.
\<close>

definition createMakimaInstance ::
  "(string \<Rightarrow> jsval option) \<Rightarrow> (nat \<Rightarrow> request \<Rightarrow> reply result) \<Rightarrow> jsval \<Rightarrow>
   usertool list option \<Rightarrow> jsval list option \<Rightarrow>
   string \<Rightarrow> world \<Rightarrow> (jsval list result \<times> world) option" where
  "createMakimaInstance parse client cfg tools userSystemPrompts =
     (\<lambda>question.
        ask \<lparr>JSON_parse = parse, openai_create = client, config = cfg,
             systemPrompts = (case userSystemPrompts of
                                None \<Rightarrow> default_system_prompts
                              | Some ps \<Rightarrow> ps)\<rparr>
            question (generated_tools tools)
            (Some (case generated_tools_map tools of None \<Rightarrow> Map.empty | Some m \<Rightarrow> m)))"

definition fresh :: world where
  "fresh = \<lparr>store = [], requests = []\<rparr>"

section \<open>Concrete scenarios\<close>

text \<open>
  \<open>JSON.parse\<close> on the argument strings the scenarios below use; any other string they
  pass (\<open>{oops\<close>) is not JSON.
\<close>

definition scenario_parse :: "string \<Rightarrow> jsval option" where
  "scenario_parse s =
     (if s = ''{\"log\":\"Hey whats up\"}'' then Some (JObj [(''log'', JStr ''Hey whats up'')])
      else if s = ''{}'' then Some (JObj [])
      else if s = ''{\"context\":\"hi\"}'' then Some (JObj [(''context'', JStr ''hi'')])
      else if s = ''{\"context\":null}'' then Some (JObj [(''context'', JNull)])
      else None)"

text \<open>The configuration of the README, without the integrations.\<close>

definition scenario_config :: jsval where
  "scenario_config =
     JObj [(''config'', JObj [(''name'', JStr ''test bot''),
                              (''openai'', JObj [(''openAIApiKey'', JStr ''sk-test'')])])]"

text \<open>The tool of the README: \<open>async ({ log }) => console.log(log)\<close> resolves to \<open>undefined\<close>.\<close>

definition log_tool :: usertool where
  "log_tool =
     \<lparr>ut_tool = \<lparr>tool_type = ''function'', fn_name = ''log'',
                  fn_description = ''Send system logs'',
                  fn_parameters = JObj [(''type'', JStr ''object'')]\<rparr>,
      ut_function = (\<lambda>args props. case get_prop args ''log'' of
                               Thrown e \<Rightarrow> Some (Thrown e)
                             | Value v \<Rightarrow> Some (Value JUndefined))\<rparr>"

definition log_prompt :: jsval where
  "log_prompt = JObj [(''role'', JStr ''system''), (''content'', JStr ''Log any user input.'')]"

definition log_call :: toolcall where
  "log_call =
     \<lparr>tc_id = ''call_1'', tc_name = ''log'', tc_arguments = ''{\"log\":\"Hey whats up\"}''\<rparr>"

text \<open>A model that asks for the one tool call first and answers in plain text afterwards.\<close>

definition log_model :: "nat \<Rightarrow> request \<Rightarrow> reply result" where
  "log_model n req =
     (if n = 0 then Value \<lparr>reply_content = None, reply_tool_calls = Some [log_call]\<rparr>
      else Value \<lparr>reply_content = Some ''Logged.'', reply_tool_calls = None\<rparr>)"

text \<open>Executables that fail: one throws an \<open>Error\<close>, one throws a value that cannot be serialised.\<close>

definition crash_executable :: executable where
  "crash_executable args props = Some (Thrown (JError ''Error'' ''disk full''))"

definition bigint_executable :: executable where
  "bigint_executable args props = Some (Thrown (JBigInt 1))"

definition failing_tools :: tools_map where
  "failing_tools = [''crash'' \<mapsto> crash_executable, ''bigint'' \<mapsto> bigint_executable]"

definition crash_call :: toolcall where
  "crash_call = \<lparr>tc_id = ''call_2'', tc_name = ''crash'', tc_arguments = ''{}''\<rparr>"

definition bigint_call :: toolcall where
  "bigint_call = \<lparr>tc_id = ''call_3'', tc_name = ''bigint'', tc_arguments = ''{}''\<rparr>"

definition malformed_call :: toolcall where
  "malformed_call = \<lparr>tc_id = ''call_4'', tc_name = ''log'', tc_arguments = ''{oops''\<rparr>"

definition switch_call :: toolcall where
  "switch_call =
     \<lparr>tc_id = ''call_5'', tc_name = ''switch_tool_set'',
      tc_arguments = ''{\"context\":\"hi\"}''\<rparr>"


definition log_tools_map :: tools_map where
  "log_tools_map = [''log'' \<mapsto> ut_function log_tool]"

text \<open>A request for a name that no tool has but every plain object inherits.\<close>

definition toString_call :: toolcall where
  "toString_call = \<lparr>tc_id = ''call_7'', tc_name = ''toString'', tc_arguments = ''{}''\<rparr>"

definition log_closure :: closure where
  "log_closure =
     \<lparr>JSON_parse = scenario_parse, openai_create = log_model, config = scenario_config,
      systemPrompts = [log_prompt]\<rparr>"

text \<open>A model that answers in plain text at once.\<close>

definition plain_model :: "nat \<Rightarrow> request \<Rightarrow> reply result" where
  "plain_model n req = Value \<lparr>reply_content = Some ''Hello'', reply_tool_calls = None\<rparr>"

definition plain_closure :: closure where
  "plain_closure =
     \<lparr>JSON_parse = scenario_parse, openai_create = plain_model, config = scenario_config,
      systemPrompts = [log_prompt]\<rparr>"

text \<open>
  A model whose second reply carries an empty \<open>tool_calls\<close> array, as some servers send
  for a reply without tool calls; its third reply leaves the field out.
\<close>

definition empty_array_model :: "nat \<Rightarrow> request \<Rightarrow> reply result" where
  "empty_array_model n req =
     (if n = 0 then Value \<lparr>reply_content = None, reply_tool_calls = Some [log_call]\<rparr>
      else if n = 1 then Value \<lparr>reply_content = Some ''Logged.'', reply_tool_calls = Some []\<rparr>
      else Value \<lparr>reply_content = Some ''Logged.'', reply_tool_calls = None\<rparr>)"



text \<open>An executable whose promise never settles.\<close>

definition hanging_tools_map :: tools_map where
  "hanging_tools_map = [''log'' \<mapsto> (\<lambda>args props. None)]"

section \<open>Properties of messages\<close>

text \<open>The content is truthy, or the \<open>content\<close> property is there and is \<open>null\<close>.\<close>

definition content_ok :: "jsval \<Rightarrow> bool" where
  "content_ok m =
     (case get_prop m ''content'' of Value c \<Rightarrow> truthy c \<or> c = JNull | Thrown e \<Rightarrow> False)"

text \<open>A tool-result message for the request: role \<open>tool\<close> and the request's id.\<close>

definition answers :: "toolcall \<Rightarrow> jsval \<Rightarrow> bool" where
  "answers tool m \<longleftrightarrow>
     get_prop m ''role'' = Value (JStr ''tool'') \<and>
     get_prop m ''tool_call_id'' = Value (JStr (tc_id tool))"

text \<open>A value whose properties can be read.\<close>

definition defined :: "jsval \<Rightarrow> bool" where
  "defined m \<longleftrightarrow> m \<noteq> JNull \<and> m \<noteq> JUndefined"

text \<open>The invocation settles, and not by fulfilling with \<open>null\<close>.\<close>

definition settles_not_null :: "closure \<Rightarrow> tools_map \<Rightarrow> toolcall \<Rightarrow> bool" where
  "settles_not_null I tm tool \<longleftrightarrow>
     runTool (JSON_parse I) (config I) tm tool \<noteq> None \<and>
     runTool (JSON_parse I) (config I) tm tool \<noteq> Some (Value JNull)"

section \<open>Observations on a finished turn\<close>

text \<open>How many requests the model has received when the turn returns.\<close>

definition calls_made :: "(jsval list result \<times> world) option \<Rightarrow> nat option" where
  "calls_made run = map_option (\<lambda>(out, w). length (requests w)) run"

text \<open>The \<open>role\<close> of every message of the returned history, in order.\<close>

definition returned_roles :: "(jsval list result \<times> world) option \<Rightarrow> jsval result list option" where
  "returned_roles run =
     map_option (\<lambda>(out, w). case out of
                                Value h \<Rightarrow> map (\<lambda>m. get_prop m ''role'') h
                              | Thrown e \<Rightarrow> []) run"

text \<open>The requests the turn has left in the log, when it returns.\<close>

definition logged :: "(jsval list result \<times> world) option \<Rightarrow> request list" where
  "logged run = (case run of None \<Rightarrow> [] | Some (out, w) \<Rightarrow> requests w)"

definition log_turn :: "(jsval list result \<times> world) option" where
  "log_turn =
     createMakimaInstance scenario_parse log_model scenario_config (Some [log_tool])
       (Some [log_prompt]) ''Hey whats up'' fresh"

text \<open>Further scenarios: a model whose first reply already carries the empty array.\<close>

definition empty_first_model :: "nat \<Rightarrow> request \<Rightarrow> reply result" where
  "empty_first_model n req =
     (if n = 0 then Value \<lparr>reply_content = Some ''Hello'', reply_tool_calls = Some []\<rparr>
      else Value \<lparr>reply_content = Some ''Hello'', reply_tool_calls = None\<rparr>)"

definition empty_array_closure :: closure where
  "empty_array_closure =
     \<lparr>JSON_parse = scenario_parse, openai_create = empty_array_model,
      config = scenario_config, systemPrompts = [log_prompt]\<rparr>"

text \<open>An instance without tools, asked twice.\<close>

definition plain_entry :: "string \<Rightarrow> world \<Rightarrow> (jsval list result \<times> world) option" where
  "plain_entry =
     createMakimaInstance scenario_parse plain_model scenario_config None (Some [log_prompt])"

definition plain_reply :: reply where
  "plain_reply = \<lparr>reply_content = Some ''Hello'', reply_tool_calls = None\<rparr>"

definition plain_history1 :: "jsval list" where
  "plain_history1 = [log_prompt, user_message ''Hi'', reply_message plain_reply]"

definition plain_world1 :: world where
  "plain_world1 =
     \<lparr>store = plain_history1,
      requests = [\<lparr>req_tools = None, req_messages = [log_prompt, user_message ''Hi'']\<rparr>]\<rparr>"

definition plain_history2 :: "jsval list" where
  "plain_history2 =
     plain_history1 @ [log_prompt, user_message ''Again'', reply_message plain_reply]"

definition plain_world2 :: world where
  "plain_world2 =
     \<lparr>store = plain_history2,
      requests = [\<lparr>req_tools = None, req_messages = [log_prompt, user_message ''Hi'']\<rparr>,
                  \<lparr>req_tools = None,
                   req_messages = plain_history1 @ [log_prompt, user_message ''Again'']\<rparr>]\<rparr>"

section \<open>The tool invoker\<close>

lemma JSON_stringify_Error: "JSON_stringify (JError n m) = Value (JStr ''{}'')"
  by (simp add: JSON_stringify_def)

lemma lookup_own: "tools_map name = Some f \<Longrightarrow> lookup tools_map name = Some f"
  by (simp add: lookup_def)

text \<open>
  C4. A request whose argument string \<open>JSON.parse\<close> rejects: \<open>runTool\<close> fulfils (it does
  not throw) with the message of role \<open>tool\<close> that carries the request's id and the
  content \<open>Invalid JSON passed as arguments\<close>, whatever the name and the registry.
\<close>

theorem runTool_invalid_json:
  assumes "parse (tc_arguments tool) = None"
  shows "runTool parse cfg tools_map tool =
           Some (Value (JObj [(''role'', JStr ''tool''),
                              (''tool_call_id'', JStr (tc_id tool)),
                              (''content'', JStr ''Invalid JSON passed as arguments'')]))"
  using assms by (simp add: runTool_def invalid_json_message_def)

theorem runTool_invalid_json_witness:
  "scenario_parse (tc_arguments malformed_call) = None \<and>
   runTool scenario_parse scenario_config failing_tools malformed_call =
     Some (Value (JObj [(''role'', JStr ''tool''),
                        (''tool_call_id'', JStr ''call_4''),
                        (''content'', JStr ''Invalid JSON passed as arguments'')]))"
proof -
  have h: "scenario_parse (tc_arguments malformed_call) = None"
    by (simp add: scenario_parse_def malformed_call_def)
  from runTool_invalid_json
    [where parse = scenario_parse and tool = malformed_call and cfg = scenario_config
       and tools_map = failing_tools, OF h] h
  show ?thesis
    by (simp add: malformed_call_def)
qed

text \<open>
  C9. An executable that is invoked (the arguments parse, the name is not the reserved
  one, the registry has the name) and throws an \<open>Error\<close> object: the message \<open>runTool\<close>
  returns has the content \<open>{}\<close>, whatever the error's name and message were.
\<close>

theorem runTool_thrown_Error:
  assumes "parse (tc_arguments tool) = Some args"
    and "tc_name tool \<noteq> ''switch_tool_set''"
    and "tools_map (tc_name tool) = Some f"
    and "f args cfg = Some (Thrown (JError name message))"
  shows "runTool parse cfg tools_map tool =
           Some (Value (JObj [(''role'', JStr ''tool''),
                              (''tool_call_id'', JStr (tc_id tool)),
                              (''content'', JStr ''{}'')]))"
  using assms
  by (simp add: runTool_def run_tool_try_def lookup_own JSON_stringify_Error error_message_def)

theorem runTool_thrown_Error_witness:
  "runTool scenario_parse scenario_config failing_tools crash_call =
     Some (Value (JObj [(''role'', JStr ''tool''),
                        (''tool_call_id'', JStr ''call_2''),
                        (''content'', JStr ''{}'')]))"
proof -
  have h1: "scenario_parse (tc_arguments crash_call) = Some (JObj [])"
    by (simp add: scenario_parse_def crash_call_def)
  have h2: "tc_name crash_call \<noteq> ''switch_tool_set''"
    by (simp add: crash_call_def)
  have h3: "failing_tools (tc_name crash_call) = Some crash_executable"
    by (simp add: failing_tools_def crash_call_def)
  have h4: "crash_executable (JObj []) scenario_config =
              Some (Thrown (JError ''Error'' ''disk full''))"
    by (simp add: crash_executable_def)
  from runTool_thrown_Error
    [where parse = scenario_parse and tool = crash_call and tools_map = failing_tools
       and args = "JObj []" and f = crash_executable and cfg = scenario_config
       and name = "''Error''" and message = "''disk full''", OF h1 h2 h3 h4]
  show ?thesis
    by (simp add: crash_call_def)
qed

text \<open>
  The reserved name: \<open>runTool\<close> settles with the outcome of reading \<open>context\<close> from the
  parsed arguments, and the registry plays no part.
\<close>

lemma runTool_switch_tool_set:
  assumes "tc_name tool = ''switch_tool_set''"
    and "parse (tc_arguments tool) = Some args"
  shows "runTool parse cfg tools_map tool = Some (get_prop args ''context'')"
  using assms by (simp add: runTool_def)

text \<open>
  C3, at the request \<open>switch_tool_set\<close> with the arguments \<open>{"context":"hi"}\<close>: what
  \<open>runTool\<close> returns is the string \<open>hi\<close> itself. It has no \<open>role\<close>, no \<open>tool_call_id\<close>
  and no \<open>content\<close>: it is not a message whose content is the context.
\<close>

theorem runTool_switch_tool_set_raw:
  "runTool scenario_parse scenario_config failing_tools switch_call =
     Some (Value (JStr ''hi'')) \<and>
   get_prop (JStr ''hi'') ''role'' = Value JUndefined \<and>
   get_prop (JStr ''hi'') ''tool_call_id'' = Value JUndefined \<and>
   get_prop (JStr ''hi'') ''content'' = Value JUndefined"
  by (simp add: runTool_def scenario_parse_def switch_call_def)

text \<open>
  A name that no tool has is not always a failed lookup: with an empty registry, a
  request for \<open>toString\<close> runs the inherited method, and the message carries what
  \<open>JSON.stringify\<close> makes of \<open>[object Object]\<close>, quotes included.
\<close>

lemma runTool_inherited_toString:
  "runTool scenario_parse scenario_config Map.empty toString_call =
     Some (Value (JObj [(''tool_call_id'', JStr ''call_7''),
                        (''role'', JStr ''tool''),
                        (''content'', JStr (CHR 0x22 # ''[object Object]'' @ [CHR 0x22]))]))"
  by (simp add: runTool_def run_tool_try_def lookup_def Object_prototype_def scenario_parse_def
      toString_call_def JSON_stringify_def result_message_def quote_def escape_char_def)

section \<open>Normalising the message list\<close>

lemma map_of_set_prop_same: "map_of (set_prop kvs k v) k = Some v"
  by (induction kvs) auto

lemma map_of_set_prop_other: "k' \<noteq> k \<Longrightarrow> map_of (set_prop kvs k v) k' = map_of kvs k'"
  by (induction kvs) auto

lemma normalize_content_ok: "normalize_content m = Value m' \<Longrightarrow> content_ok m'"
  by (auto simp: normalize_content_def content_ok_def map_of_set_prop_same
      split: result.splits if_splits)

lemma normalize_all_content_ok:
  "normalize_all ms = Value ms' \<Longrightarrow> \<forall>m\<in>set ms'. content_ok m"
  by (induction ms arbitrary: ms')
     (auto split: result.splits dest: normalize_content_ok)

lemma normalize_all_length: "normalize_all ms = Value ms' \<Longrightarrow> length ms' = length ms"
  by (induction ms arbitrary: ms') (auto split: result.splits)

lemma normalize_all_append:
  "normalize_all (xs @ ys) =
     (case normalize_all xs of
        Thrown e \<Rightarrow> Thrown e
      | Value xs' \<Rightarrow>
          (case normalize_all ys of Thrown e \<Rightarrow> Thrown e | Value ys' \<Rightarrow> Value (xs' @ ys')))"
  by (induction xs) (auto split: result.splits)

lemma normalize_defined:
  "defined m \<Longrightarrow> \<exists>m'. normalize_content m = Value m' \<and> defined m'"
  by (cases m) (auto simp: normalize_content_def defined_def)

lemma normalize_all_defined:
  "\<forall>m\<in>set ms. defined m \<Longrightarrow>
   \<exists>ms'. normalize_all ms = Value ms' \<and> (\<forall>m\<in>set ms'. defined m)"
proof (induction ms)
  case Nil
  then show ?case by simp
next
  case (Cons m ms)
  then obtain ms' where ms': "normalize_all ms = Value ms'" "\<forall>m\<in>set ms'. defined m"
    by auto
  from Cons.prems obtain m' where m': "normalize_content m = Value m'" "defined m'"
    using normalize_defined by auto
  from ms' m' show ?case by simp
qed

lemma normalize_answers:
  "answers tool m \<Longrightarrow> \<exists>m'. normalize_content m = Value m' \<and> answers tool m'"
  by (cases m)
     (auto simp: normalize_content_def answers_def map_of_set_prop_other
      split: option.splits if_splits)

lemma normalize_all_answers:
  "list_all2 answers tool_calls ms \<Longrightarrow>
   \<exists>ms'. normalize_all ms = Value ms' \<and> list_all2 answers tool_calls ms'"
proof (induction tool_calls ms rule: list_all2_induct)
  case Nil
  then show ?case by simp
next
  case (Cons tool tool_calls m ms)
  then obtain ms' where ms': "normalize_all ms = Value ms'" "list_all2 answers tool_calls ms'"
    by auto
  from Cons.hyps obtain m' where m': "normalize_content m = Value m'" "answers tool m'"
    using normalize_answers by blast
  from ms' m' show ?case by simp
qed

section \<open>One round of tool execution\<close>

lemma runTool_answers:
  assumes "tc_name tool \<noteq> ''switch_tool_set''"
    and "runTool parse cfg tm tool = Some (Value m)"
  shows "answers tool m"
  using assms
  by (auto simp: runTool_def run_tool_try_def lookup_def answers_def invalid_json_message_def
      result_message_def error_message_def split: option.splits result.splits if_splits)

lemma answers_defined: "answers tool m \<Longrightarrow> m \<noteq> JUndefined \<and> m \<noteq> JNull"
  by (auto simp: answers_def)

lemma invoke_all_fulfilled:
  assumes "\<forall>tool\<in>set tool_calls. tc_name tool \<noteq> ''switch_tool_set''"
    and "\<forall>tool\<in>set tool_calls. \<exists>m. runTool (JSON_parse I) (config I) tm tool = Some (Value m)"
  shows "\<exists>ms. invoke_all I (Some tm) tool_calls = Some (map Value ms) \<and>
              list_all2 answers tool_calls ms"
  using assms
proof (induction tool_calls)
  case Nil
  then show ?case by (simp add: invoke_all_def)
next
  case (Cons tool tool_calls)
  then obtain ms where ms: "invoke_all I (Some tm) tool_calls = Some (map Value ms)"
      "list_all2 answers tool_calls ms"
    by auto
  from Cons.prems obtain m where m: "runTool (JSON_parse I) (config I) tm tool = Some (Value m)"
    by auto
  with Cons.prems have "answers tool m"
    by (auto intro: runTool_answers)
  with ms m have "invoke_all I (Some tm) (tool # tool_calls) = Some (map Value (m # ms)) \<and>
      list_all2 answers (tool # tool_calls) (m # ms)"
    by (simp add: invoke_all_def)
  then show ?case by blast
qed

lemma new_messages_answers:
  "list_all2 answers tool_calls ms \<Longrightarrow> new_messages (map Value ms) = ms"
  by (induction tool_calls ms rule: list_all2_induct)
     (auto simp: new_messages_def dest: answers_defined)

lemma new_message_history_appended:
  assumes names: "\<forall>tool\<in>set tool_calls. tc_name tool \<noteq> ''switch_tool_set''"
    and fulfil: "\<forall>tool\<in>set tool_calls.
                   \<exists>m. runTool (JSON_parse I) (config I) tm tool = Some (Value m)"
    and hist: "\<forall>m\<in>set message_history. m \<noteq> JNull \<and> m \<noteq> JUndefined"
  shows "\<exists>H T. new_message_history I (Some tm) tool_calls message_history =
                 Some (Value (H @ T)) \<and>
               normalize_all message_history = Value H \<and>
               length H = length message_history \<and>
               list_all2 answers tool_calls T"
proof -
  from invoke_all_fulfilled [OF names fulfil] obtain ms where
    ms: "invoke_all I (Some tm) tool_calls = Some (map Value ms)"
      "list_all2 answers tool_calls ms"
    by blast
  from hist obtain H where H: "normalize_all message_history = Value H"
    using normalize_all_defined [of message_history] by (auto simp: defined_def)
  from normalize_all_answers [OF ms(2)] obtain T where
    T: "normalize_all ms = Value T" "list_all2 answers tool_calls T"
    by blast
  have "new_message_history I (Some tm) tool_calls message_history = Some (Value (H @ T))"
    using ms H T by (simp add: new_message_history_def new_messages_answers normalize_all_append)
  with H T normalize_all_length [OF H] show ?thesis by blast
qed

lemma new_message_history_content_ok:
  "new_message_history I tools_map tool_calls message_history = Some (Value history) \<Longrightarrow>
   \<forall>m\<in>set history. content_ok m"
  by (auto simp: new_message_history_def split: option.splits dest: normalize_all_content_ok)

lemma invoke_all_settles:
  assumes "\<forall>tool\<in>set tool_calls. settles_not_null I tm tool"
  shows "\<exists>rs. invoke_all I (Some tm) tool_calls = Some rs \<and> (\<forall>r\<in>set rs. r \<noteq> Value JNull)"
  using assms
proof (induction tool_calls)
  case Nil
  then show ?case by (simp add: invoke_all_def)
next
  case (Cons tool tool_calls)
  then obtain rs where
    rs: "invoke_all I (Some tm) tool_calls = Some rs" "\<forall>r\<in>set rs. r \<noteq> Value JNull"
    by auto
  from Cons.prems obtain r where
    r: "runTool (JSON_parse I) (config I) tm tool = Some r" "r \<noteq> Value JNull"
    by (auto simp: settles_not_null_def)
  with rs have "invoke_all I (Some tm) (tool # tool_calls) = Some (r # rs) \<and>
      (\<forall>r\<in>set (r # rs). r \<noteq> Value JNull)"
    by (simp add: invoke_all_def)
  then show ?case by blast
qed

lemma new_messages_defined:
  "\<forall>r\<in>set rs. r \<noteq> Value JNull \<Longrightarrow> \<forall>m\<in>set (new_messages rs). defined m"
  by (auto simp: new_messages_def defined_def split: result.splits)

lemma new_message_history_defined:
  assumes "\<forall>tool\<in>set tool_calls. settles_not_null I tm tool"
    and "\<forall>m\<in>set message_history. defined m"
  shows "\<exists>history.
           new_message_history I (Some tm) tool_calls message_history = Some (Value history) \<and>
           (\<forall>m\<in>set history. defined m)"
proof -
  from invoke_all_settles [OF assms(1)] obtain rs where
    rs: "invoke_all I (Some tm) tool_calls = Some rs" "\<forall>r\<in>set rs. r \<noteq> Value JNull"
    by blast
  from new_messages_defined [OF rs(2)] assms(2)
  have "\<forall>m\<in>set (message_history @ new_messages rs). defined m"
    by auto
  from normalize_all_defined [OF this] rs(1) show ?thesis
    by (simp add: new_message_history_def)
qed

lemma reply_message_defined: "defined (reply_message r)"
  by (simp add: defined_def reply_message_def)

section \<open>The requests of a turn\<close>

lemma resolve_tools_requests:
  assumes "resolve_tools I tools tools_map tool_calls message_history reqs = Some y"
  shows "\<exists>new. snd y = reqs @ new \<and>
           (\<forall>req\<in>set new. \<forall>m\<in>set (req_messages req). content_ok m)"
proof (rule resolve_tools.raw_induct
    [where P = "\<lambda>I tools tools_map tool_calls message_history reqs y.
       \<exists>new. snd y = reqs @ new \<and> (\<forall>req\<in>set new. \<forall>m\<in>set (req_messages req). content_ok m)",
     OF _ assms], goal_cases)
  case (1 f I tools tools_map tool_calls message_history reqs y)
  show ?case
  proof (cases "new_message_history I tools_map tool_calls message_history")
    case None
    with 1(2) show ?thesis by simp
  next
    case (Some r)
    show ?thesis
    proof (cases r)
      case (Thrown e)
      with Some 1(2) show ?thesis by auto
    next
      case (Value history)
      let ?req = "\<lparr>req_tools = map_option wire_tools tools, req_messages = history\<rparr>"
      from Some Value have ok: "\<forall>m\<in>set (req_messages ?req). content_ok m"
        using new_message_history_content_ok by simp
      show ?thesis
      proof (cases "openai_create I (length reqs) ?req")
        case (Thrown e)
        with Some Value 1(2) ok show ?thesis by auto
      next
        case res: (Value res)
        show ?thesis
        proof (cases "reply_tool_calls res")
          case None
          with Some Value res 1(2) ok show ?thesis by auto
        next
          case tcs: (Some tcs)
          with Some Value res 1(2)
          have "f I tools tools_map tcs (history @ [reply_message res]) (reqs @ [?req]) = Some y"
            by simp
          from 1(1) [OF this] obtain new where
            new: "snd y = (reqs @ [?req]) @ new"
              "\<forall>req\<in>set new. \<forall>m\<in>set (req_messages req). content_ok m"
            by blast
          with ok have "snd y = reqs @ (?req # new) \<and>
              (\<forall>req\<in>set (?req # new). \<forall>m\<in>set (req_messages req). content_ok m)"
            by simp
          then show ?thesis by blast
        qed
      qed
    qed
  qed
qed

text \<open>
  C2 as stated fails: an invocation that settles by rejecting (its executable threw a
  value that cannot be serialised) is dropped, so after a reply with one request the
  list sent to the model next holds no tool-result message.
\<close>

theorem rejected_invocation_dropped:
  "runTool (JSON_parse plain_closure) (config plain_closure) failing_tools bigint_call =
     Some (Thrown (type_error ''Do not know how to serialize a BigInt'')) \<and>
   resolve_tools plain_closure None (Some failing_tools) [bigint_call]
     [user_message ''Hey whats up''] [] =
     Some (Value [user_message ''Hey whats up'', reply_message plain_reply],
           [\<lparr>req_tools = None, req_messages = [user_message ''Hey whats up'']\<rparr>])"
  by (simp add: resolve_tools.simps new_message_history_def invoke_all_def new_messages_def
      runTool_def run_tool_try_def lookup_def scenario_parse_def bigint_call_def
      failing_tools_def bigint_executable_def JSON_stringify_def plain_closure_def
      plain_model_def plain_reply_def user_message_def normalize_content_def)

text \<open>
  C2, amended. Let a reply carry \<open>N\<close> requests, none under the reserved name, whose
  invocations all fulfil (with a result or with a recovered error), the history holding
  message objects only. Then the next model call, the one \<open>resolve_tools\<close> makes for
  this reply, is given the normalised history \<open>H\<close> followed by exactly \<open>N\<close> messages \<open>T\<close>
  of role \<open>tool\<close>, the \<open>i\<close>-th carrying the id of the \<open>i\<close>-th request: \<open>resolve_tools\<close> goes
  on from that call as written below, and whenever it returns, that request is the next
  one in the log.
\<close>

theorem tool_results_appended:
  assumes names: "\<forall>tool\<in>set tool_calls. tc_name tool \<noteq> ''switch_tool_set''"
    and fulfil: "\<forall>tool\<in>set tool_calls.
                   \<exists>m. runTool (JSON_parse I) (config I) tm tool = Some (Value m)"
    and hist: "\<forall>m\<in>set message_history. m \<noteq> JNull \<and> m \<noteq> JUndefined"
  shows "\<exists>H T. normalize_all message_history = Value H \<and>
           length H = length message_history \<and>
           list_all2 answers tool_calls T \<and>
           resolve_tools I tools (Some tm) tool_calls message_history reqs =
             (case openai_create I (length reqs)
                     \<lparr>req_tools = map_option wire_tools tools, req_messages = H @ T\<rparr> of
                Thrown e \<Rightarrow>
                  Some (Thrown e,
                        reqs @ [\<lparr>req_tools = map_option wire_tools tools,
                                 req_messages = H @ T\<rparr>])
              | Value res \<Rightarrow>
                  (case reply_tool_calls res of
                     Some tcs \<Rightarrow>
                       resolve_tools I tools (Some tm) tcs ((H @ T) @ [reply_message res])
                         (reqs @ [\<lparr>req_tools = map_option wire_tools tools,
                                   req_messages = H @ T\<rparr>])
                   | None \<Rightarrow>
                       Some (Value ((H @ T) @ [reply_message res]),
                             reqs @ [\<lparr>req_tools = map_option wire_tools tools,
                                      req_messages = H @ T\<rparr>]))) \<and>
           (\<forall>out reqs'.
              resolve_tools I tools (Some tm) tool_calls message_history reqs =
                Some (out, reqs') \<longrightarrow>
              (\<exists>more. reqs' = reqs @ \<lparr>req_tools = map_option wire_tools tools,
                                       req_messages = H @ T\<rparr> # more))"
proof -
  from new_message_history_appended [OF names fulfil hist] obtain H T where
    HT: "new_message_history I (Some tm) tool_calls message_history = Some (Value (H @ T))"
      "normalize_all message_history = Value H" "length H = length message_history"
      "list_all2 answers tool_calls T"
    by blast
  let ?req = "\<lparr>req_tools = map_option wire_tools tools, req_messages = H @ T\<rparr>"
  let ?next = "case openai_create I (length reqs) ?req of
                 Thrown e \<Rightarrow> Some (Thrown e, reqs @ [?req])
               | Value res \<Rightarrow>
                   (case reply_tool_calls res of
                      Some tcs \<Rightarrow>
                        resolve_tools I tools (Some tm) tcs ((H @ T) @ [reply_message res])
                          (reqs @ [?req])
                    | None \<Rightarrow> Some (Value ((H @ T) @ [reply_message res]), reqs @ [?req]))"
  have step: "resolve_tools I tools (Some tm) tool_calls message_history reqs = ?next"
    by (subst resolve_tools.simps) (simp add: HT(1))
  have log: "\<exists>more. reqs' = reqs @ ?req # more"
    if run: "resolve_tools I tools (Some tm) tool_calls message_history reqs = Some (out, reqs')"
    for out reqs'
  proof (cases "openai_create I (length reqs) ?req")
    case (Thrown e)
    with run step have "reqs' = reqs @ [?req]" by simp
    then show ?thesis by simp
  next
    case res: (Value res)
    show ?thesis
    proof (cases "reply_tool_calls res")
      case None
      with run step res have "reqs' = reqs @ [?req]" by simp
      then show ?thesis by simp
    next
      case (Some tcs)
      with run step res
      have "resolve_tools I tools (Some tm) tcs ((H @ T) @ [reply_message res])
              (reqs @ [?req]) = Some (out, reqs')"
        by simp
      from resolve_tools_requests [OF this] show ?thesis by auto
    qed
  qed
  from HT(2,3,4) step log show ?thesis by blast
qed

theorem tool_results_appended_witness:
  "\<exists>H T out reqs' more.
     resolve_tools plain_closure None (Some failing_tools) [crash_call, malformed_call]
       [user_message ''Hey whats up''] [] = Some (out, reqs') \<and>
     reqs' = [] @ \<lparr>req_tools = map_option wire_tools None, req_messages = H @ T\<rparr> # more \<and>
     normalize_all [user_message ''Hey whats up''] = Value H \<and>
     length H = length [user_message ''Hey whats up''] \<and>
     list_all2 answers [crash_call, malformed_call] T"
proof -
  have names: "\<forall>tool\<in>set [crash_call, malformed_call]. tc_name tool \<noteq> ''switch_tool_set''"
    by (simp add: crash_call_def malformed_call_def)
  have fulfil: "\<forall>tool\<in>set [crash_call, malformed_call].
      \<exists>m. runTool (JSON_parse plain_closure) (config plain_closure) failing_tools tool =
            Some (Value m)"
    by (simp add: runTool_def run_tool_try_def lookup_def scenario_parse_def crash_call_def
        malformed_call_def failing_tools_def crash_executable_def JSON_stringify_def
        plain_closure_def)
  have hist: "\<forall>m\<in>set [user_message ''Hey whats up'']. m \<noteq> JNull \<and> m \<noteq> JUndefined"
    by (simp add: user_message_def)
  from tool_results_appended [OF names fulfil hist, of None "[]"] obtain H T where
    HT: "normalize_all [user_message ''Hey whats up''] = Value H"
      "length H = length [user_message ''Hey whats up'']"
      "list_all2 answers [crash_call, malformed_call] T"
    and step: "resolve_tools plain_closure None (Some failing_tools)
        [crash_call, malformed_call] [user_message ''Hey whats up''] [] =
        (case openai_create plain_closure (length ([] :: request list))
                \<lparr>req_tools = map_option wire_tools None, req_messages = H @ T\<rparr> of
           Thrown e \<Rightarrow>
             Some (Thrown e,
                   [] @ [\<lparr>req_tools = map_option wire_tools None, req_messages = H @ T\<rparr>])
         | Value res \<Rightarrow>
             (case reply_tool_calls res of
                Some tcs \<Rightarrow>
                  resolve_tools plain_closure None (Some failing_tools) tcs
                    ((H @ T) @ [reply_message res])
                    ([] @ [\<lparr>req_tools = map_option wire_tools None, req_messages = H @ T\<rparr>])
              | None \<Rightarrow>
                  Some (Value ((H @ T) @ [reply_message res]),
                        [] @ [\<lparr>req_tools = map_option wire_tools None,
                                req_messages = H @ T\<rparr>])))"
    and log: "\<forall>out reqs'.
        resolve_tools plain_closure None (Some failing_tools) [crash_call, malformed_call]
          [user_message ''Hey whats up''] [] = Some (out, reqs') \<longrightarrow>
        (\<exists>more. reqs' = [] @ \<lparr>req_tools = map_option wire_tools None,
                                req_messages = H @ T\<rparr> # more)"
    by blast
  from step obtain out reqs' where
    run: "resolve_tools plain_closure None (Some failing_tools) [crash_call, malformed_call]
            [user_message ''Hey whats up''] [] = Some (out, reqs')"
    by (simp add: plain_closure_def plain_model_def)
  with log obtain more where
    "reqs' = [] @ \<lparr>req_tools = map_option wire_tools None, req_messages = H @ T\<rparr> # more"
    by blast
  with run HT show ?thesis by blast
qed

lemma ask_requests:
  assumes "ask I question tools tools_map w = Some (out, w')"
  shows "\<exists>first rest. requests w' = requests w @ first # rest \<and>
           req_messages first = store w @ systemPrompts I @ [user_message question] \<and>
           (\<forall>req\<in>set rest. \<forall>m\<in>set (req_messages req). content_ok m)"
proof -
  let ?first = "\<lparr>req_tools = map_option wire_tools tools,
                 req_messages = store w @ systemPrompts I @ [user_message question]\<rparr>"
  show ?thesis
  proof (cases "openai_create I (length (requests w)) ?first")
    case (Thrown e)
    with assms have "requests w' = requests w @ ?first # []"
      by (auto simp: ask_def add_array_def)
    then show ?thesis by force
  next
    case res: (Value res)
    show ?thesis
    proof (cases "reply_tool_calls res")
      case None
      with res assms have "requests w' = requests w @ ?first # []"
        by (auto simp: ask_def add_array_def add_single_def)
      then show ?thesis by force
    next
      case (Some tcs)
      with res assms obtain y where
        y: "resolve_tools I tools tools_map tcs
              (store w @ systemPrompts I @ [user_message question] @ [reply_message res])
              (requests w @ [?first]) = Some y"
        and w': "requests w' = snd y"
        by (auto simp: ask_def add_array_def add_single_def
            split: option.splits result.splits prod.splits)
      from resolve_tools_requests [OF y] w' obtain new where
        "requests w' = requests w @ ?first # new"
        "\<forall>req\<in>set new. \<forall>m\<in>set (req_messages req). content_ok m"
        by auto
      then show ?thesis by force
    qed
  qed
qed

lemma ask_store_prefix:
  assumes "ask I question tools tools_map w = Some (out, w')"
  shows "\<exists>rest. store w' = store w @ systemPrompts I @ [user_message question] @ rest \<and>
           (out = Value (store w') \<or> (\<exists>e. out = Thrown e))"
  using assms
  by (auto simp: ask_def add_array_def add_single_def
      split: result.splits option.splits prod.splits)

section \<open>Failing tool calls\<close>












lemma Some_the: "x \<noteq> None \<Longrightarrow> x = Some (fst (the x), snd (the x))"
  by auto

text \<open>
  C8. When a turn returns, the requests it made are the first one, which carries the
  stored history with the system prompts and the question, and then the requests made
  after a round of tool execution: in each of those, every message has a truthy content
  or a \<open>content\<close> property that is \<open>null\<close>.
\<close>

theorem submitted_after_tools_normalized:
  assumes "ask I question tools tools_map w = Some (out, w')"
  shows "\<exists>first rest. requests w' = requests w @ first # rest \<and>
           (\<forall>req\<in>set rest. \<forall>m\<in>set (req_messages req). content_ok m)"
  using ask_requests [OF assms] by blast

theorem submitted_after_tools_normalized_witness:
  "length (logged log_turn) = 2 \<and>
   list_all (\<lambda>req. list_all content_ok (req_messages req)) (tl (logged log_turn))"
proof -
  have run: "log_turn =
      ask log_closure ''Hey whats up'' (Some [ut_tool log_tool]) (Some log_tools_map) fresh"
    by (simp add: log_turn_def createMakimaInstance_def log_closure_def generated_tools_def
        generated_tools_map_def log_tools_map_def log_tool_def)
  have calls: "calls_made log_turn = Some 2"
    unfolding log_turn_def by code_simp
  then obtain out w' where turn: "log_turn = Some (out, w')" and two: "length (requests w') = 2"
    by (cases log_turn) (auto simp: calls_made_def)
  from turn run
  have h: "ask log_closure ''Hey whats up'' (Some [ut_tool log_tool]) (Some log_tools_map) fresh =
             Some (out, w')"
    by simp
  from submitted_after_tools_normalized [OF h] obtain first rest where
    rest: "requests w' = requests fresh @ first # rest"
      "\<forall>req\<in>set rest. \<forall>m\<in>set (req_messages req). content_ok m"
    by blast
  have "logged log_turn = requests w'"
    unfolding logged_def turn by simp
  with rest two show ?thesis
    by (simp add: fresh_def list_all_iff)
qed

section \<open>How many model calls a turn makes\<close>

lemma resolve_tools_rounds:
  assumes "\<forall>i<k. \<forall>req. \<exists>r tcs. openai_create I (length reqs + i) req = Value r \<and>
             reply_tool_calls r = Some tcs \<and> (\<forall>tool\<in>set tcs. settles_not_null I tm tool)"
    and "\<forall>req. \<exists>r. openai_create I (length reqs + k) req = Value r \<and>
             reply_tool_calls r = None"
    and "\<forall>tool\<in>set tool_calls. settles_not_null I tm tool"
    and "\<forall>m\<in>set message_history. defined m"
  shows "\<exists>h reqs'. resolve_tools I tools (Some tm) tool_calls message_history reqs =
                     Some (Value h, reqs') \<and>
                   length reqs' = length reqs + k + 1"
  using assms
proof (induction k arbitrary: tool_calls message_history reqs)
  case 0
  from new_message_history_defined [OF "0.prems"(3,4)] obtain history where
    history: "new_message_history I (Some tm) tool_calls message_history = Some (Value history)"
    by blast
  let ?req = "\<lparr>req_tools = map_option wire_tools tools, req_messages = history\<rparr>"
  from "0.prems"(2) obtain r where
    r: "openai_create I (length reqs) ?req = Value r" "reply_tool_calls r = None"
    by force
  have "resolve_tools I tools (Some tm) tool_calls message_history reqs =
          Some (Value (history @ [reply_message r]), reqs @ [?req])"
    by (subst resolve_tools.simps) (simp add: history r)
  then show ?case by simp
next
  case (Suc k)
  from new_message_history_defined [OF Suc.prems(3,4)] obtain history where
    history: "new_message_history I (Some tm) tool_calls message_history = Some (Value history)"
      "\<forall>m\<in>set history. defined m"
    by blast
  let ?req = "\<lparr>req_tools = map_option wire_tools tools, req_messages = history\<rparr>"
  from Suc.prems(1) have "\<exists>r tcs. openai_create I (length reqs + 0) ?req = Value r \<and>
      reply_tool_calls r = Some tcs \<and> (\<forall>tool\<in>set tcs. settles_not_null I tm tool)"
    by blast
  then obtain r tcs where
    r: "openai_create I (length reqs) ?req = Value r" "reply_tool_calls r = Some tcs"
      "\<forall>tool\<in>set tcs. settles_not_null I tm tool"
    by auto
  have step: "resolve_tools I tools (Some tm) tool_calls message_history reqs =
          resolve_tools I tools (Some tm) tcs (history @ [reply_message r]) (reqs @ [?req])"
    by (subst resolve_tools.simps) (simp add: history r)
  have script: "\<forall>i<k. \<forall>req. \<exists>r tcs.
      openai_create I (length (reqs @ [?req]) + i) req = Value r \<and>
      reply_tool_calls r = Some tcs \<and> (\<forall>tool\<in>set tcs. settles_not_null I tm tool)"
  proof (intro allI impI)
    fix i req
    assume "i < k"
    then have "Suc i < Suc k" by simp
    with Suc.prems(1) have "\<exists>r tcs. openai_create I (length reqs + Suc i) req = Value r \<and>
        reply_tool_calls r = Some tcs \<and> (\<forall>tool\<in>set tcs. settles_not_null I tm tool)"
      by blast
    then show "\<exists>r tcs. openai_create I (length (reqs @ [?req]) + i) req = Value r \<and>
        reply_tool_calls r = Some tcs \<and> (\<forall>tool\<in>set tcs. settles_not_null I tm tool)"
      by simp
  qed
  have final: "\<forall>req. \<exists>r. openai_create I (length (reqs @ [?req]) + k) req = Value r \<and>
      reply_tool_calls r = None"
    using Suc.prems(2) by simp
  have hist: "\<forall>m\<in>set (history @ [reply_message r]). defined m"
    using history(2) reply_message_defined by auto
  from Suc.IH [OF script final r(3) hist] step show ?case
    by auto
qed

text \<open>
  C6 as stated fails. With a tool call on round 1 and a reply on round 2 whose
  \<open>tool_calls\<close> is the empty array (zero tool calls), the turn does not stop after
  \<open>k + 1 = 2\<close> model calls: the array is truthy and a third call is made. And with the
  model of the scenario, a tool whose promise never settles keeps the turn from returning.
\<close>

theorem empty_tool_calls_array_recurses:
  "calls_made (ask empty_array_closure ''Hey whats up'' (Some [ut_tool log_tool])
      (Some log_tools_map) fresh) = Some 3 \<and>
   ask log_closure ''Hey whats up'' (Some [ut_tool log_tool]) (Some hanging_tools_map) fresh =
     None"
  by (simp add: calls_made_def ask_def resolve_tools.simps new_message_history_def invoke_all_def
      new_messages_def normalize_content_def runTool_def run_tool_try_def lookup_def scenario_parse_def
      empty_array_model_def empty_array_closure_def log_model_def log_tool_def log_tools_map_def
      hanging_tools_map_def log_closure_def log_prompt_def log_call_def fresh_def add_array_def
      add_single_def user_message_def reply_message_def JSON_stringify_def result_message_def
      wire_tools_def toolcall_value_def)

text \<open>
  C6, amended. Take a model boundary whose replies on the next \<open>k\<close> calls carry a
  \<open>tool_calls\<close> array (of any length) and whose reply on the call after those has no
  \<open>tool_calls\<close> field, every requested invocation settling and none fulfilling with
  \<open>null\<close>; the stored messages and the system prompts are neither \<open>null\<close> nor
  \<open>undefined\<close>. Then one call of \<open>ask\<close> returns a history and has made exactly \<open>k + 1\<close>
  model calls: the recursion ends at the first reply without a \<open>tool_calls\<close> field.
\<close>

theorem ask_model_calls:
  assumes script: "\<forall>i<k. \<forall>req. \<exists>r tcs.
             openai_create I (length (requests w) + i) req = Value r \<and>
             reply_tool_calls r = Some tcs \<and> (\<forall>tool\<in>set tcs. settles_not_null I tm tool)"
    and final: "\<forall>req. \<exists>r. openai_create I (length (requests w) + k) req = Value r \<and>
             reply_tool_calls r = None"
    and hist: "\<forall>m\<in>set (store w @ systemPrompts I). defined m"
  shows "\<exists>h w'. ask I question tools (Some tm) w = Some (Value h, w') \<and>
           length (requests w') = length (requests w) + k + 1"
proof -
  let ?messages = "store w @ systemPrompts I @ [user_message question]"
  let ?first = "\<lparr>req_tools = map_option wire_tools tools, req_messages = ?messages\<rparr>"
  show ?thesis
  proof (cases k)
    case 0
    with final obtain r where
      r: "openai_create I (length (requests w)) ?first = Value r" "reply_tool_calls r = None"
      by force
    then show ?thesis
      using 0 by (simp add: ask_def add_array_def add_single_def)
  next
    case (Suc k')
    with script have "\<exists>r tcs. openai_create I (length (requests w) + 0) ?first = Value r \<and>
        reply_tool_calls r = Some tcs \<and> (\<forall>tool\<in>set tcs. settles_not_null I tm tool)"
      by blast
    then obtain r tcs where
      r: "openai_create I (length (requests w)) ?first = Value r" "reply_tool_calls r = Some tcs"
        "\<forall>tool\<in>set tcs. settles_not_null I tm tool"
      by auto
    let ?reqs = "requests w @ [?first]"
    have script': "\<forall>i<k'. \<forall>req. \<exists>r tcs. openai_create I (length ?reqs + i) req = Value r \<and>
        reply_tool_calls r = Some tcs \<and> (\<forall>tool\<in>set tcs. settles_not_null I tm tool)"
    proof (intro allI impI)
      fix i req
      assume "i < k'"
      then have "Suc i < k" using Suc by simp
      with script have "\<exists>r tcs. openai_create I (length (requests w) + Suc i) req = Value r \<and>
          reply_tool_calls r = Some tcs \<and> (\<forall>tool\<in>set tcs. settles_not_null I tm tool)"
        by blast
      then show "\<exists>r tcs. openai_create I (length ?reqs + i) req = Value r \<and>
          reply_tool_calls r = Some tcs \<and> (\<forall>tool\<in>set tcs. settles_not_null I tm tool)"
        by simp
    qed
    have final': "\<forall>req. \<exists>r. openai_create I (length ?reqs + k') req = Value r \<and>
        reply_tool_calls r = None"
      using final Suc by simp
    have hist': "\<forall>m\<in>set (?messages @ [reply_message r]). defined m"
      using hist reply_message_defined by (auto simp: defined_def user_message_def)
    from resolve_tools_rounds [OF script' final' r(3) hist', of tools] obtain h reqs' where
      res: "resolve_tools I tools (Some tm) tcs (?messages @ [reply_message r]) ?reqs =
              Some (Value h, reqs')"
        "length reqs' = length ?reqs + k' + 1"
      by blast
    then show ?thesis
      using r Suc by (simp add: ask_def add_array_def add_single_def)
  qed
qed

theorem ask_model_calls_witness:
  "\<exists>h w'. ask log_closure ''Hey whats up'' (Some [ut_tool log_tool]) (Some log_tools_map) fresh =
            Some (Value h, w') \<and>
          length (requests w') = length (requests fresh) + 1 + 1"
proof -
  have good: "settles_not_null log_closure log_tools_map log_call"
    by (simp add: settles_not_null_def runTool_def run_tool_try_def lookup_def scenario_parse_def
        log_call_def log_tools_map_def log_tool_def log_closure_def JSON_stringify_def
        result_message_def)
  have script: "\<forall>i<1. \<forall>req. \<exists>r tcs.
      openai_create log_closure (length (requests fresh) + i) req = Value r \<and>
      reply_tool_calls r = Some tcs \<and>
      (\<forall>tool\<in>set tcs. settles_not_null log_closure log_tools_map tool)"
    using good by (simp add: log_closure_def log_model_def fresh_def)
  have final: "\<forall>req. \<exists>r.
      openai_create log_closure (length (requests fresh) + 1) req = Value r \<and>
      reply_tool_calls r = None"
    by (simp add: log_closure_def log_model_def fresh_def)
  have hist: "\<forall>m\<in>set (store fresh @ systemPrompts log_closure). defined m"
    by (simp add: log_closure_def fresh_def defined_def log_prompt_def)
  from ask_model_calls [OF script final hist] show ?thesis .
qed

text \<open>
  C7 as stated fails: with no tools declared and a fresh store, a model whose reply
  carries an empty \<open>tool_calls\<close> array is called a second time, and the returned history
  is not the system prompt, the question and one assistant message.
\<close>

theorem empty_array_without_tools:
  "calls_made (createMakimaInstance scenario_parse empty_first_model scenario_config None
      (Some [log_prompt]) ''Hi'' fresh) = Some 2 \<and>
   returned_roles (createMakimaInstance scenario_parse empty_first_model scenario_config None
      (Some [log_prompt]) ''Hi'' fresh) =
     Some [Value (JStr ''system''), Value (JStr ''user''), Value (JStr ''assistant''),
           Value (JStr ''system''), Value (JStr ''user''), Value (JStr ''assistant''),
           Value (JStr ''assistant'')]"
  by (simp add: calls_made_def returned_roles_def createMakimaInstance_def ask_def
      resolve_tools.simps new_message_history_def invoke_all_def new_messages_def
      normalize_content_def empty_first_model_def log_prompt_def fresh_def add_array_def
      add_single_def user_message_def reply_message_def generated_tools_def
      generated_tools_map_def)

text \<open>
  C7, amended. On a fresh default store, whatever tools are declared (none, in
  particular): if the model's reply to the first request has no \<open>tool_calls\<close> field,
  \<open>ask\<close> makes exactly that one model call and returns the system prompts, then the user
  message, then the one assistant message.
\<close>

theorem ask_plain_reply:
  assumes "client 0 \<lparr>req_tools = map_option wire_tools (generated_tools tools),
                     req_messages = sys @ [user_message question]\<rparr> = Value r"
    and "reply_tool_calls r = None"
  shows "createMakimaInstance parse client cfg tools (Some sys) question fresh =
           Some (Value (sys @ [user_message question] @ [reply_message r]),
                 \<lparr>store = sys @ [user_message question] @ [reply_message r],
                  requests = [\<lparr>req_tools = map_option wire_tools (generated_tools tools),
                               req_messages = sys @ [user_message question]\<rparr>]\<rparr>)"
  using assms
  by (simp add: createMakimaInstance_def ask_def add_array_def add_single_def fresh_def)

theorem ask_plain_reply_witness:
  "plain_entry ''Hi'' fresh = Some (Value plain_history1, plain_world1)"
proof -
  have h1: "plain_model 0 \<lparr>req_tools = map_option wire_tools (generated_tools None),
                          req_messages = [log_prompt] @ [user_message ''Hi'']\<rparr> =
              Value plain_reply"
    by (simp add: plain_model_def plain_reply_def)
  have h2: "reply_tool_calls plain_reply = None"
    by (simp add: plain_reply_def)
  from ask_plain_reply
    [where client = plain_model and tools = None and sys = "[log_prompt]"
       and question = "''Hi''" and r = plain_reply and parse = scenario_parse
       and cfg = scenario_config, OF h1 h2]
  show ?thesis
    by (simp add: plain_entry_def plain_history1_def plain_world1_def generated_tools_def)
qed

section \<open>The store across turns\<close>

text \<open>
  C10. Every call of the entry point that returns a history has first appended the
  system prompts and the new user message to the store: the first request of the turn
  carries the stored messages followed by them, and so does the returned history. Hence
  the history returned by a second call is the first turn's history, then the system
  prompts again, then the second question and what follows.
\<close>

theorem system_prompts_added_every_turn:
  assumes "entry = createMakimaInstance parse client cfg tools (Some sys)"
    and "entry q1 w0 = Some (Value h1, w1)"
    and "entry q2 w1 = Some (Value h2, w2)"
  shows "\<exists>rest1 rest2 first1 more1 first2 more2.
           h1 = store w0 @ sys @ [user_message q1] @ rest1 \<and> store w1 = h1 \<and>
           h2 = h1 @ sys @ [user_message q2] @ rest2 \<and> store w2 = h2 \<and>
           requests w1 = requests w0 @ first1 # more1 \<and>
           req_messages first1 = store w0 @ sys @ [user_message q1] \<and>
           requests w2 = requests w1 @ first2 # more2 \<and>
           req_messages first2 = h1 @ sys @ [user_message q2]"
proof -
  from assms(1,2) obtain I ts tm where
    a1: "ask I q1 ts tm w0 = Some (Value h1, w1)" and I: "systemPrompts I = sys"
    and e: "entry = (\<lambda>q. ask I q ts tm)"
    by (auto simp: createMakimaInstance_def)
  from e assms(3) have a2: "ask I q2 ts tm w1 = Some (Value h2, w2)"
    by simp
  from ask_store_prefix [OF a1] I obtain rest1 where
    s1: "store w1 = store w0 @ sys @ [user_message q1] @ rest1" "h1 = store w1"
    by auto
  from ask_store_prefix [OF a2] I obtain rest2 where
    s2: "store w2 = store w1 @ sys @ [user_message q2] @ rest2" "h2 = store w2"
    by auto
  from ask_requests [OF a1] I obtain first1 more1 where
    r1: "requests w1 = requests w0 @ first1 # more1"
      "req_messages first1 = store w0 @ sys @ [user_message q1]"
    by auto
  from ask_requests [OF a2] I obtain first2 more2 where
    r2: "requests w2 = requests w1 @ first2 # more2"
      "req_messages first2 = store w1 @ sys @ [user_message q2]"
    by auto
  from s1 s2 r1 r2 show ?thesis by auto
qed

theorem system_prompts_added_every_turn_witness:
  "\<exists>rest1 rest2 first1 more1 first2 more2.
     plain_history1 = store fresh @ [log_prompt] @ [user_message ''Hi''] @ rest1 \<and>
     store plain_world1 = plain_history1 \<and>
     plain_history2 = plain_history1 @ [log_prompt] @ [user_message ''Again''] @ rest2 \<and>
     store plain_world2 = plain_history2 \<and>
     requests plain_world1 = requests fresh @ first1 # more1 \<and>
     req_messages first1 = store fresh @ [log_prompt] @ [user_message ''Hi''] \<and>
     requests plain_world2 = requests plain_world1 @ first2 # more2 \<and>
     req_messages first2 = plain_history1 @ [log_prompt] @ [user_message ''Again'']"
proof -
  have e: "plain_entry =
      createMakimaInstance scenario_parse plain_model scenario_config None (Some [log_prompt])"
    by (simp add: plain_entry_def)
  have t1: "plain_entry ''Hi'' fresh = Some (Value plain_history1, plain_world1)"
    by (simp add: plain_entry_def createMakimaInstance_def ask_def add_array_def
        add_single_def fresh_def plain_model_def plain_reply_def plain_history1_def
        plain_world1_def generated_tools_def)
  have t2: "plain_entry ''Again'' plain_world1 = Some (Value plain_history2, plain_world2)"
    by (simp add: plain_entry_def createMakimaInstance_def ask_def add_array_def
        add_single_def plain_model_def plain_reply_def plain_history1_def plain_world1_def
        plain_history2_def plain_world2_def generated_tools_def)
  from system_prompts_added_every_turn [OF e t1 t2] show ?thesis .
qed

section \<open>The scenario of the README\<close>

text \<open>
  C1, at the scenario: one tool \<open>log\<close>, the system prompt, the question
  \<open>Hey whats up\<close>, a first reply with the one tool call and a second reply in plain text.
  Two model calls are made, and the returned history has eight messages, not five: the
  three messages that were in the store before the tools ran come back a second time in
  front of the tool result, because \<open>resolve_tools\<close> returns the whole history and \<open>ask\<close>
  appends all of it to the store.
\<close>

theorem log_scenario_history:
  "returned_roles log_turn =
     Some [Value (JStr ''system''), Value (JStr ''user''), Value (JStr ''assistant''),
           Value (JStr ''system''), Value (JStr ''user''), Value (JStr ''assistant''),
           Value (JStr ''tool''), Value (JStr ''assistant'')] \<and>
   calls_made log_turn = Some 2"
  by (simp add: returned_roles_def calls_made_def log_turn_def createMakimaInstance_def ask_def
      resolve_tools.simps new_message_history_def invoke_all_def new_messages_def
      normalize_content_def runTool_def run_tool_try_def lookup_def scenario_parse_def log_model_def
      log_tool_def log_prompt_def log_call_def fresh_def generated_tools_def
      generated_tools_map_def add_array_def add_single_def user_message_def reply_message_def
      JSON_stringify_def result_message_def wire_tools_def toolcall_value_def)

end
